theory Spec2Isabelle
  imports Main
begin

section \<open>The schema declaration tree\<close>

text \<open>
  The declaration tree is the AST the parser of the \<open>graphql\<close> package returns. Only the
  properties the two source files read are kept. A property the package's types mark as
  optional (\<open>fields?\<close>, \<open>directives?\<close>, \<open>arguments?\<close>) is an \<open>option\<close>: \<open>None\<close> is
  JavaScript's \<open>undefined\<close>.
\<close>

text \<open>
  JavaScript values, as far as the code inspects them: the context value, resolver
  results and directive argument values. Numbers are integers here (no \<open>NaN\<close>, no
  fractions); an object is its list of own properties.
\<close>

datatype jsvalue =
    JUndefined
  | JNull
  | JBool bool
  | JNum int
  | JStr string
  | JObj "(string \<times> jsvalue) list"
  | JArr "jsvalue list"

type_synonym jsobject = "(string \<times> jsvalue) list"

datatype ValueNode =
    VariableNode string
  | ConstValueNode jsvalue

record ArgumentNode =
  arg_name :: string
  arg_value :: ValueNode

record DirectiveNode =
  dir_name :: string
  arguments :: "ArgumentNode list option"

record FieldDefinitionNode =
  field_name :: string
  directives :: "DirectiveNode list option"

text \<open>
  One record serves every definition kind that owns fields: object, interface and input
  object types and their extensions.
\<close>

record TypeDefinitionNode =
  type_name :: string
  type_fields :: "FieldDefinitionNode list option"

datatype DefinitionNode =
    ObjectTypeDefinition TypeDefinitionNode
  | ObjectTypeExtension TypeDefinitionNode
  | InterfaceTypeDefinition TypeDefinitionNode
  | InterfaceTypeExtension TypeDefinitionNode
  | InputObjectTypeDefinition TypeDefinitionNode
  | EnumTypeDefinition string
  | ScalarTypeDefinition string
  | UnionTypeDefinition string
  | DirectiveDefinition string
  | SchemaDefinition
  | OperationDefinition
  | FragmentDefinition string

record DocumentNode =
  definitions :: "DefinitionNode list"

section \<open>The directive-presence validator (example-1.ts)\<close>

text \<open>
  \<open>field.directives?.some(d => directivesToEnforce.includes(d.name.value))\<close>: with no
  directive list the optional chain gives \<open>undefined\<close>, which \<open>!hasDirective\<close> reads as
  false.
\<close>

definition hasDirective :: "string list \<Rightarrow> FieldDefinitionNode \<Rightarrow> bool" where
  "hasDirective directivesToEnforce field =
     (case directives field of
        None \<Rightarrow> False
      | Some ds \<Rightarrow> list_ex (\<lambda>directive. dir_name directive \<in> set directivesToEnforce) ds)"

text \<open>
  The \<open>for (const field of ...)\<close> loop, with the array \<open>result\<close> it pushes to as an
  accumulator.
\<close>

fun forFields ::
  "string list \<Rightarrow> string \<Rightarrow> FieldDefinitionNode list \<Rightarrow> string list \<Rightarrow> string list" where
  "forFields directivesToEnforce tname [] result = result"
| "forFields directivesToEnforce tname (field # rest) result =
     forFields directivesToEnforce tname rest
       (if \<not> hasDirective directivesToEnforce field
        then result @ [tname @ ''.'' @ field_name field]
        else result)"

text \<open>The visitor's \<open>ObjectTypeDefinition(typeNode)\<close> callback; \<open>fields || []\<close>.\<close>

definition enterObjectTypeDefinition ::
  "string list \<Rightarrow> string list \<Rightarrow> TypeDefinitionNode \<Rightarrow> string list \<Rightarrow> string list" where
  "enterObjectTypeDefinition directivesToEnforce typesToCheck typeNode result =
     (if type_name typeNode \<in> set typesToCheck
      then forFields directivesToEnforce (type_name typeNode)
             (case type_fields typeNode of None \<Rightarrow> [] | Some fs \<Rightarrow> fs) result
      else result)"

text \<open>
  \<open>visit(schemaDocumentNode, { ObjectTypeDefinition(typeNode) { ... } })\<close>: the traversal
  of the \<open>graphql\<close> package walks the document's definitions in order and calls the
  callback on the nodes of kind \<open>ObjectTypeDefinition\<close>, which occur only as definitions
  of the document. The callback returns nothing, so the traversal edits nothing and
  skips nothing.
\<close>

fun visit ::
  "string list \<Rightarrow> string list \<Rightarrow> DefinitionNode list \<Rightarrow> string list \<Rightarrow> string list" where
  "visit directivesToEnforce typesToCheck [] result = result"
| "visit directivesToEnforce typesToCheck (ObjectTypeDefinition typeNode # rest) result =
     visit directivesToEnforce typesToCheck rest
       (enterObjectTypeDefinition directivesToEnforce typesToCheck typeNode result)"
| "visit directivesToEnforce typesToCheck (_ # rest) result =
     visit directivesToEnforce typesToCheck rest result"

definition validateDirectives ::
  "DocumentNode \<Rightarrow> string list \<Rightarrow> string list \<Rightarrow> string list" where
  "validateDirectives schemaDocumentNode directivesToEnforce typesToCheck =
     visit directivesToEnforce typesToCheck (definitions schemaDocumentNode) []"

section \<open>JavaScript values and errors (part_000)\<close>

text \<open>
  A \<open>throw\<close> is the left summand of a result. \<open>TypeError\<close> is what reading a property
  of \<open>undefined\<close> or \<open>null\<close> raises; \<open>Error\<close> carries the message of \<open>new Error(...)\<close>;
  \<open>GraphQLError\<close> is what the argument decoder of the \<open>graphql\<close> package raises.
\<close>

datatype error =
    TypeError
  | Error string
  | GraphQLError string

text \<open>What \<open>!v\<close>, \<open>v && ...\<close> and \<open>v || ...\<close> test.\<close>

fun truthy :: "jsvalue \<Rightarrow> bool" where
  "truthy JUndefined = False"
| "truthy JNull = False"
| "truthy (JBool b) = b"
| "truthy (JNum n) = (n \<noteq> 0)"
| "truthy (JStr s) = (s \<noteq> [])"
| "truthy (JObj _) = True"
| "truthy (JArr _) = True"

text \<open>
  \<open>v.k\<close> for the property names the code reads (\<open>currentUser\<close>, \<open>correntUser\<close>, \<open>role\<close>),
  none of which a prototype defines: a missing property is \<open>undefined\<close>, and reading
  a property of \<open>undefined\<close> or \<open>null\<close> throws.
\<close>

fun getProp :: "jsvalue \<Rightarrow> string \<Rightarrow> error + jsvalue" where
  "getProp JUndefined k = Inl TypeError"
| "getProp JNull k = Inl TypeError"
| "getProp (JObj props) k = Inr (case map_of props k of None \<Rightarrow> JUndefined | Some v \<Rightarrow> v)"
| "getProp _ k = Inr JUndefined"

text \<open>
  \<open>a === b\<close>. Primitives compare by value. Two objects or arrays are equal only when they
  are the same allocation; the values compared here come from two different places
  (the context value and the freshly decoded directive arguments), so they never are.
\<close>

fun strictEquals :: "jsvalue \<Rightarrow> jsvalue \<Rightarrow> bool" where
  "strictEquals JUndefined JUndefined = True"
| "strictEquals JNull JNull = True"
| "strictEquals (JBool a) (JBool b) = (a = b)"
| "strictEquals (JNum a) (JNum b) = (a = b)"
| "strictEquals (JStr a) (JStr b) = (a = b)"
| "strictEquals _ _ = False"

text \<open>The string a template literal \<open>`${v}`\<close> inserts.\<close>

fun digitsOf :: "nat \<Rightarrow> string" where
  "digitsOf n =
     (if n < 10 then [char_of (48 + n)]
      else digitsOf (n div 10) @ [char_of (48 + n mod 10)])"

fun joinWith :: "string \<Rightarrow> string list \<Rightarrow> string" where
  "joinWith sep [] = []"
| "joinWith sep [s] = s"
| "joinWith sep (s # t # rest) = s @ sep @ joinWith sep (t # rest)"

fun toString :: "jsvalue \<Rightarrow> string" where
  "toString JUndefined = ''undefined''"
| "toString JNull = ''null''"
| "toString (JBool b) = (if b then ''true'' else ''false'')"
| "toString (JNum n) = (if n < 0 then ''-'' @ digitsOf (nat (- n)) else digitsOf (nat n))"
| "toString (JStr s) = s"
| "toString (JObj _) = ''[object Object]''"
| "toString (JArr xs) =
     joinWith '',''
       (map (\<lambda>x. if x = JUndefined \<or> x = JNull then [] else toString x) xs)"

text \<open>
  \<open>s.toUpperCase()\<close> on the ASCII letters; every other character is left as it is (the
  model's strings are byte strings, so the letters outside ASCII are not covered).
\<close>

definition toUpperChar :: "char \<Rightarrow> char" where
  "toUpperChar c =
     (if 97 \<le> (of_char c :: nat) \<and> (of_char c :: nat) \<le> 122
      then char_of ((of_char c :: nat) - 32) else c)"

definition toUpperCase :: "string \<Rightarrow> string" where
  "toUpperCase s = map toUpperChar s"

section \<open>The executable schema and the resolver's arguments\<close>

record GraphQLField =
  astNode :: "FieldDefinitionNode option"

text \<open>
  The named types of a schema. Object, interface and input object types have a
  \<open>getFields()\<close> method (a map from field names, without prototype); the others do not.
\<close>

datatype GraphQLNamedType =
    GraphQLObjectType "(string \<times> GraphQLField) list"
  | GraphQLInterfaceType "(string \<times> GraphQLField) list"
  | GraphQLInputObjectType "(string \<times> GraphQLField) list"
  | GraphQLScalarType
  | GraphQLEnumType
  | GraphQLUnionType

fun getFields :: "GraphQLNamedType \<Rightarrow> (string \<times> GraphQLField) list option" where
  "getFields (GraphQLObjectType fs) = Some fs"
| "getFields (GraphQLInterfaceType fs) = Some fs"
| "getFields (GraphQLInputObjectType fs) = Some fs"
| "getFields _ = None"

datatype GraphQLInputType =
    NamedType string
  | ListType GraphQLInputType
  | NonNullType GraphQLInputType

record GraphQLArgument =
  argument_name :: string
  argument_type :: GraphQLInputType
  defaultValue :: "jsvalue option"

record GraphQLDirective =
  directive_name :: string
  directive_args :: "GraphQLArgument list"

record GraphQLSchema =
  typeMap :: "(string \<times> GraphQLNamedType) list"
  schema_directives :: "GraphQLDirective list"

text \<open>\<open>schema.getType(name)\<close> and \<open>schema.getDirective(name)\<close>; both give \<open>undefined\<close> for an unknown name.\<close>

definition schema_getType :: "GraphQLSchema \<Rightarrow> string \<Rightarrow> GraphQLNamedType option" where
  "schema_getType s name = map_of (typeMap s) name"

definition schema_getDirective :: "GraphQLSchema \<Rightarrow> string \<Rightarrow> GraphQLDirective option" where
  "schema_getDirective s name = find (\<lambda>d. directive_name d = name) (schema_directives s)"

text \<open>\<open>GraphQLResolveInfo\<close>: \<open>parentType\<close> is kept by its name, the only property read.\<close>

record GraphQLResolveInfo =
  parentType :: string
  fieldName :: string
  info_schema :: GraphQLSchema

record ResolverPayload =
  p_root :: jsvalue
  p_args :: jsobject
  p_context :: jsvalue
  p_info :: GraphQLResolveInfo

record ExecutionArgs =
  schema :: GraphQLSchema
  variableValues :: "jsobject option"
  contextValue :: jsvalue

section \<open>The directive locator\<close>

text \<open>
  \<open>getDirective(info, name)\<close>. \<open>schemaType.getFields()\<close> throws when the schema has no
  type of that name (or one without fields), \<open>field.astNode\<close> throws when the type has no
  such field; \<open>astNode?.directives?.find(...)\<close> is \<open>undefined\<close> when the field has no
  declaration node or the node no directive list, and \<open>directive || null\<close> makes that
  \<open>null\<close> (\<open>None\<close> here).
\<close>

definition getDirective :: "GraphQLResolveInfo \<Rightarrow> string \<Rightarrow> error + DirectiveNode option" where
  "getDirective info name =
     (case schema_getType (info_schema info) (parentType info) of
        None \<Rightarrow> Inl TypeError
      | Some schemaType \<Rightarrow>
          (case getFields schemaType of
             None \<Rightarrow> Inl TypeError
           | Some fs \<Rightarrow>
               (case map_of fs (fieldName info) of
                  None \<Rightarrow> Inl TypeError
                | Some field \<Rightarrow>
                    Inr (case astNode field of
                           None \<Rightarrow> None
                         | Some node \<Rightarrow>
                             (case directives node of
                                None \<Rightarrow> None
                              | Some ds \<Rightarrow> find (\<lambda>d. dir_name d = name) ds)))))"

section \<open>Hook registrations\<close>

type_synonym validation_fn =
  "ExecutionArgs \<Rightarrow> jsobject \<Rightarrow> ResolverPayload \<Rightarrow> error + unit"

type_synonym transformation_fn =
  "ExecutionArgs \<Rightarrow> jsobject \<Rightarrow> ResolverPayload \<Rightarrow> jsvalue \<Rightarrow> error + jsvalue"

text \<open>
  \<open>RedwoodDirective\<close>. The \<open>schema\<close> string is kept as the document \<open>gqlParse\<close> makes of
  it (the parser belongs to the \<open>graphql\<close> package); the two callbacks are optional and
  may throw.
\<close>

record RedwoodDirective =
  schema_document :: DocumentNode
  validation :: "validation_fn option"
  transformation :: "transformation_fn option"

text \<open>
  \<open>requiresAuthDirective.validation\<close>. The second test reads \<open>correntUser\<close>, as the
  source spells it.
\<close>

definition roleMismatchError :: "jsvalue \<Rightarrow> error" where
  "roleMismatchError role =
     Error (''You don't have the required role '' @ [CHR 0x27] @ toString role @ [CHR 0x27]
            @ '' for this field!'')"

definition requiresAuth_validation :: validation_fn where
  "requiresAuth_validation args directiveArgs resolverParams =
     (case getProp (contextValue args) ''currentUser'' of
        Inl e \<Rightarrow> Inl e
      | Inr currentUser \<Rightarrow>
          if \<not> truthy currentUser then Inl (Error ''Oops, go away!'')
          else
            (case getProp (contextValue args) ''correntUser'' of
               Inl e \<Rightarrow> Inl e
             | Inr correntUser \<Rightarrow>
                 if \<not> truthy correntUser then Inr ()
                 else
                   (case getProp correntUser ''role'' of
                      Inl e \<Rightarrow> Inl e
                    | Inr userRole \<Rightarrow>
                        (case getProp (JObj directiveArgs) ''role'' of
                           Inl e \<Rightarrow> Inl e
                         | Inr role \<Rightarrow>
                             if \<not> strictEquals userRole role
                             then Inl (roleMismatchError role)
                             else Inr ()))))"

definition requiresAuthDirective :: RedwoodDirective where
  "requiresAuthDirective =
     \<lparr> schema_document = \<lparr> definitions = [EnumTypeDefinition ''Role'', DirectiveDefinition ''auth''] \<rparr>,
       validation = Some requiresAuth_validation,
       transformation = None \<rparr>"

text \<open>\<open>uppercaseDirective.transformation\<close>: \<open>result && typeof result === "string"\<close>.\<close>

definition uppercase_transformation :: transformation_fn where
  "uppercase_transformation args directiveArgs resolverParams result =
     (case result of
        JStr s \<Rightarrow> if truthy result then Inr (JStr (toUpperCase s)) else Inr result
      | _ \<Rightarrow> Inr result)"

definition uppercaseDirective :: RedwoodDirective where
  "uppercaseDirective =
     \<lparr> schema_document = \<lparr> definitions = [DirectiveDefinition ''uppercase''] \<rparr>,
       validation = None,
       transformation = Some uppercase_transformation \<rparr>"

section \<open>The interception pipeline\<close>

text \<open>
  What a field resolution can be observed to do apart from its outcome: the calls of
  the two callbacks, with the decoded directive arguments they receive, the calls of
  the host's \<open>setResult\<close>, and the line \<open>console.log\<close> writes at installation.
\<close>

datatype event =
    ConsoleLog string
  | ValidationCalled jsobject
  | TransformationCalled jsobject jsvalue
  | SetResultCalled jsvalue

text \<open>
  The function \<open>onResolverCalled\<close> returns, called by the host once the resolver is done.
  The host's \<open>result\<close> variable, which \<open>setResult\<close> assigns, is passed in and returned.
\<close>

type_synonym afterHook = "jsvalue \<Rightarrow> event list \<times> (error + jsvalue)"

definition afterResolver ::
  "RedwoodDirective \<Rightarrow> ExecutionArgs \<Rightarrow> jsobject \<Rightarrow> ResolverPayload \<Rightarrow> afterHook" where
  "afterResolver redwoodDirective executionArgs directiveArgs payload result =
     (case transformation redwoodDirective of
        None \<Rightarrow> ([], Inr result)
      | Some transform \<Rightarrow>
          (case transform executionArgs directiveArgs payload result of
             Inl e \<Rightarrow> ([TransformationCalled directiveArgs result], Inl e)
           | Inr modifiedValue \<Rightarrow>
               ([TransformationCalled directiveArgs result, SetResultCalled modifiedValue],
                Inr modifiedValue)))"

text \<open>
  \<open>getDirectiveValues\<close> is imported from the \<open>graphql\<close> package, so the pipeline takes it
  as a parameter: it throws, or returns \<open>undefined\<close> (\<open>None\<close>), or returns an object.
\<close>

type_synonym decoder =
  "GraphQLDirective \<Rightarrow> DirectiveNode list \<Rightarrow> jsobject option \<Rightarrow> error + jsobject option"

text \<open>\<open>getDirectiveValues(directive, { directives: [directiveNode] }, variableValues) || {}\<close>\<close>

definition decodeDirectiveArgs ::
  "decoder \<Rightarrow> GraphQLDirective \<Rightarrow> DirectiveNode \<Rightarrow> jsobject option \<Rightarrow> error + jsobject" where
  "decodeDirectiveArgs getDirectiveValues directive directiveNode vars =
     (case getDirectiveValues directive [directiveNode] vars of
        Inl e \<Rightarrow> Inl e
      | Inr None \<Rightarrow> Inr []
      | Inr (Some values) \<Rightarrow> Inr values)"

type_synonym resolverHook = "ResolverPayload \<Rightarrow> event list \<times> (error + afterHook option)"

definition onResolverCalled ::
  "decoder \<Rightarrow> RedwoodDirective \<Rightarrow> string \<Rightarrow> ExecutionArgs \<Rightarrow> resolverHook" where
  "onResolverCalled getDirectiveValues redwoodDirective directiveName executionArgs payload =
     (case getDirective (p_info payload) directiveName of
        Inl e \<Rightarrow> ([], Inl e)
      | Inr None \<Rightarrow> ([], Inr None)
      | Inr (Some directiveNode) \<Rightarrow>
          (case schema_getDirective (schema executionArgs) (dir_name directiveNode) of
             None \<Rightarrow> ([], Inr None)
           | Some directive \<Rightarrow>
               (case decodeDirectiveArgs getDirectiveValues directive directiveNode
                       (variableValues executionArgs) of
                  Inl e \<Rightarrow> ([], Inl e)
                | Inr directiveArgs \<Rightarrow>
                    (case validation redwoodDirective of
                       None \<Rightarrow>
                         ([], Inr (Some (afterResolver redwoodDirective executionArgs
                                           directiveArgs payload)))
                     | Some validate \<Rightarrow>
                         (case validate executionArgs directiveArgs payload of
                            Inl e \<Rightarrow> ([ValidationCalled directiveArgs], Inl e)
                          | Inr _ \<Rightarrow>
                              ([ValidationCalled directiveArgs],
                               Inr (Some (afterResolver redwoodDirective executionArgs
                                            directiveArgs payload))))))))"

text \<open>
  \<open>useRedwoodDirectives\<close>: the name of the first directive definition of the
  registration's schema (a \<open>TypeError\<close> when it has none), logged, and the plugin, whose
  \<open>onExecute\<close> gives the hook for the fields of one execution.
\<close>

fun isDirectiveDefinition :: "DefinitionNode \<Rightarrow> bool" where
  "isDirectiveDefinition (DirectiveDefinition _) = True"
| "isDirectiveDefinition _ = False"

definition useRedwoodDirectives ::
  "decoder \<Rightarrow> RedwoodDirective \<Rightarrow> event list \<times> (error + (ExecutionArgs \<Rightarrow> resolverHook))" where
  "useRedwoodDirectives getDirectiveValues redwoodDirective =
     (case find isDirectiveDefinition (definitions (schema_document redwoodDirective)) of
        Some (DirectiveDefinition directiveName) \<Rightarrow>
          ([ConsoleLog directiveName],
           Inr (onResolverCalled getDirectiveValues redwoodDirective directiveName))
      | _ \<Rightarrow> ([], Inl TypeError))"

section \<open>The host engine and the argument decoder\<close>

text \<open>
  Modelled from the spec: the host execution engine's side of the plugin boundary
  (sections 4.3 and 6), which the source only calls into. For one field the engine calls
  the installed hooks in installation order before the resolver runs; a hook that fails
  makes the field fail with that error; the functions the hooks returned are then called
  in order with the resolver's result and a setter that replaces it.
\<close>

fun callHooks :: "resolverHook list \<Rightarrow> ResolverPayload \<Rightarrow> event list \<times> (error + afterHook list)" where
  "callHooks [] payload = ([], Inr [])"
| "callHooks (hook # hooks) payload =
     (case hook payload of
        (evs, Inl e) \<Rightarrow> (evs, Inl e)
      | (evs, Inr afterFn) \<Rightarrow>
          (case callHooks hooks payload of
             (evs', Inl e) \<Rightarrow> (evs @ evs', Inl e)
           | (evs', Inr afterCalls) \<Rightarrow>
               (evs @ evs',
                Inr ((case afterFn of None \<Rightarrow> [] | Some f \<Rightarrow> [f]) @ afterCalls))))"

fun callAfter :: "afterHook list \<Rightarrow> jsvalue \<Rightarrow> event list \<times> (error + jsvalue)" where
  "callAfter [] result = ([], Inr result)"
| "callAfter (afterFn # afterCalls) result =
     (case afterFn result of
        (evs, Inl e) \<Rightarrow> (evs, Inl e)
      | (evs, Inr result') \<Rightarrow>
          (case callAfter afterCalls result' of (evs', r) \<Rightarrow> (evs @ evs', r)))"

definition resolveField ::
  "resolverHook list \<Rightarrow> ResolverPayload \<Rightarrow> jsvalue \<Rightarrow> event list \<times> (error + jsvalue)" where
  "resolveField hooks payload resolverResult =
     (case callHooks hooks payload of
        (evs, Inl e) \<Rightarrow> (evs, Inl e)
      | (evs, Inr afterCalls) \<Rightarrow>
          (case callAfter afterCalls resolverResult of (evs', r) \<Rightarrow> (evs @ evs', r)))"

text \<open>
  Modelled from the spec: the Argument Decoder of section 4.2, which is
  \<open>getDirectiveValues\<close> of the \<open>graphql\<close> package and not part of the source. For each
  declared argument, in declaration order: a supplied literal, or the value bound to a
  supplied variable, is coerced to the declared type, and a value the type rejects is
  a decode failure; an argument with no supplied value takes its declared default;
  with no default it is a decode failure when the argument is required (its type is
  non-null) and is left out of the mapping otherwise. The coercion of a value to a
  declared type depends on the schema's scalar and enum types and is a parameter.
\<close>

fun isNonNullType :: "GraphQLInputType \<Rightarrow> bool" where
  "isNonNullType (NonNullType _) = True"
| "isNonNullType _ = False"

definition isRequiredArgument :: "GraphQLArgument \<Rightarrow> bool" where
  "isRequiredArgument argDef = (isNonNullType (argument_type argDef) \<and> defaultValue argDef = None)"

definition suppliedValue :: "ArgumentNode list \<Rightarrow> jsobject option \<Rightarrow> string \<Rightarrow> jsvalue option" where
  "suppliedValue argumentNodes vars name =
     (case find (\<lambda>a. arg_name a = name) argumentNodes of
        None \<Rightarrow> None
      | Some a \<Rightarrow>
          (case arg_value a of
             ConstValueNode v \<Rightarrow> Some v
           | VariableNode x \<Rightarrow> (case vars of None \<Rightarrow> None | Some bindings \<Rightarrow> map_of bindings x)))"

fun getArgumentValues ::
  "(GraphQLInputType \<Rightarrow> jsvalue \<Rightarrow> jsvalue option) \<Rightarrow> GraphQLArgument list \<Rightarrow>
   ArgumentNode list \<Rightarrow> jsobject option \<Rightarrow> error + jsobject" where
  "getArgumentValues coerce [] argumentNodes vars = Inr []"
| "getArgumentValues coerce (argDef # rest) argumentNodes vars =
     (case suppliedValue argumentNodes vars (argument_name argDef) of
        None \<Rightarrow>
          (case defaultValue argDef of
             Some d \<Rightarrow>
               (case getArgumentValues coerce rest argumentNodes vars of
                  Inl e \<Rightarrow> Inl e
                | Inr values \<Rightarrow> Inr ((argument_name argDef, d) # values))
           | None \<Rightarrow>
               if isNonNullType (argument_type argDef)
               then Inl (GraphQLError (''invalid directive usage: required argument ''
                                       @ argument_name argDef @ '' was not provided''))
               else getArgumentValues coerce rest argumentNodes vars)
      | Some v \<Rightarrow>
          (case coerce (argument_type argDef) v of
             None \<Rightarrow>
               Inl (GraphQLError (''invalid directive usage: argument ''
                                  @ argument_name argDef @ '' has an invalid value''))
           | Some c \<Rightarrow>
               (case getArgumentValues coerce rest argumentNodes vars of
                  Inl e \<Rightarrow> Inl e
                | Inr values \<Rightarrow> Inr ((argument_name argDef, c) # values))))"

definition argumentsOf :: "DirectiveNode \<Rightarrow> ArgumentNode list" where
  "argumentsOf directiveNode = (case arguments directiveNode of None \<Rightarrow> [] | Some as \<Rightarrow> as)"

definition getDirectiveValues :: "(GraphQLInputType \<Rightarrow> jsvalue \<Rightarrow> jsvalue option) \<Rightarrow> decoder" where
  "getDirectiveValues coerce directiveDef nodes vars =
     (case find (\<lambda>d. dir_name d = directive_name directiveDef) nodes of
        None \<Rightarrow> Inr None
      | Some directiveNode \<Rightarrow>
          (case getArgumentValues coerce (directive_args directiveDef)
                  (argumentsOf directiveNode) vars of
             Inl e \<Rightarrow> Inl e
           | Inr values \<Rightarrow> Inr (Some values)))"

text \<open>
  The coercion used in the worked examples: a non-null type rejects \<open>null\<close> and
  \<open>undefined\<close>, and every other value is taken as it is.
\<close>

fun coerceInputValue :: "GraphQLInputType \<Rightarrow> jsvalue \<Rightarrow> jsvalue option" where
  "coerceInputValue (NonNullType t) v =
     (if v = JNull \<or> v = JUndefined then None else coerceInputValue t v)"
| "coerceInputValue _ v = Some v"

section \<open>The schemas of the two examples\<close>

definition plainField :: "string \<Rightarrow> FieldDefinitionNode" where
  "plainField n = \<lparr> field_name = n, directives = Some [] \<rparr>"

definition markedField :: "string \<Rightarrow> string \<Rightarrow> FieldDefinitionNode" where
  "markedField n d = \<lparr> field_name = n, directives = Some [\<lparr> dir_name = d, arguments = Some [] \<rparr>] \<rparr>"

text \<open>The document \<open>testSchema\<close> of example-1.ts and the call made on it.\<close>

definition example1_testSchema :: DocumentNode where
  "example1_testSchema =
     \<lparr> definitions =
         [DirectiveDefinition ''auth'',
          DirectiveDefinition ''noAuth'',
          ObjectTypeDefinition
            \<lparr> type_name = ''Query'',
              type_fields = Some [plainField ''noAuthError'', markedField ''version'' ''noAuth'',
                                  markedField ''me'' ''auth'', plainField ''test''] \<rparr>,
          ObjectTypeDefinition
            \<lparr> type_name = ''User'',
              type_fields = Some [plainField ''id'', plainField ''name''] \<rparr>] \<rparr>"

text \<open>The schema of the spec's example: \<open>type Query { a  b @noAuth  c @auth }\<close>.\<close>

definition abcSchema :: DocumentNode where
  "abcSchema =
     \<lparr> definitions =
         [ObjectTypeDefinition
            \<lparr> type_name = ''Query'',
              type_fields = Some [plainField ''a'', markedField ''b'' ''noAuth'',
                                  markedField ''c'' ''auth''] \<rparr>] \<rparr>"

text \<open>\<open>testSchema\<close> of part_000, as \<open>makeExecutableSchema\<close> builds it (built-in scalars and directives left out).\<close>

definition authNode :: "string \<Rightarrow> DirectiveNode" where
  "authNode r =
     \<lparr> dir_name = ''auth'',
       arguments = Some [\<lparr> arg_name = ''role'', arg_value = ConstValueNode (JStr r) \<rparr>] \<rparr>"

definition authField :: "string \<Rightarrow> string \<Rightarrow> GraphQLField" where
  "authField n r = \<lparr> astNode = Some \<lparr> field_name = n, directives = Some [authNode r] \<rparr> \<rparr>"

definition authDefinition :: GraphQLDirective where
  "authDefinition =
     \<lparr> directive_name = ''auth'',
       directive_args = [\<lparr> argument_name = ''role'',
                           argument_type = NonNullType (NamedType ''Role''),
                           defaultValue = None \<rparr>] \<rparr>"

definition uppercaseDefinition :: GraphQLDirective where
  "uppercaseDefinition = \<lparr> directive_name = ''uppercase'', directive_args = [] \<rparr>"

definition testSchema :: GraphQLSchema where
  "testSchema =
     \<lparr> typeMap =
         [(''Query'', GraphQLObjectType
             [(''me'', authField ''me'' ''USER''),
              (''simple'', \<lparr> astNode = Some (plainField ''simple'') \<rparr>),
              (''secretPassword'', authField ''secretPassword'' ''ADMIN''),
              (''testUpper'', \<lparr> astNode = Some (markedField ''testUpper'' ''uppercase'') \<rparr>)]),
          (''User'', GraphQLObjectType
             [(''id'', \<lparr> astNode = Some (plainField ''id'') \<rparr>),
              (''name'', \<lparr> astNode = Some (plainField ''name'') \<rparr>)]),
          (''Role'', GraphQLEnumType)],
       schema_directives = [authDefinition, uppercaseDefinition] \<rparr>"

text \<open>The execution arguments and the resolver's arguments of a query for one field of \<open>Query\<close>.\<close>

definition testArgs :: "jsvalue \<Rightarrow> ExecutionArgs" where
  "testArgs ctx = \<lparr> schema = testSchema, variableValues = None, contextValue = ctx \<rparr>"

definition testPayload :: "string \<Rightarrow> jsvalue \<Rightarrow> ResolverPayload" where
  "testPayload f ctx =
     \<lparr> p_root = JUndefined, p_args = [], p_context = ctx,
       p_info = \<lparr> parentType = ''Query'', fieldName = f, info_schema = testSchema \<rparr> \<rparr>"

text \<open>The hooks of the two plugins \<open>test()\<close> installs, in its order.\<close>

definition testHooks :: "jsvalue \<Rightarrow> resolverHook list" where
  "testHooks ctx =
     [onResolverCalled (getDirectiveValues coerceInputValue) requiresAuthDirective ''auth'' (testArgs ctx),
      onResolverCalled (getDirectiveValues coerceInputValue) uppercaseDirective ''uppercase'' (testArgs ctx)]"

text \<open>A schema whose field \<open>secret\<close> carries \<open>@auth\<close> without its \<open>role\<close> argument.\<close>

definition bareAuthSchema :: GraphQLSchema where
  "bareAuthSchema =
     \<lparr> typeMap =
         [(''Query'', GraphQLObjectType
             [(''secret'', \<lparr> astNode = Some (markedField ''secret'' ''auth'') \<rparr>)])],
       schema_directives = [authDefinition] \<rparr>"

section \<open>The validator as the spec words it, and with its effects on a store\<close>

text \<open>
  Section 4.4 of the spec, read as a comprehension: the type declarations of the tree
  whose name is in the target set, in order; their fields, in declaration order; those
  fields none of whose directive names is in the required set.
\<close>

fun objectTypes :: "DefinitionNode list \<Rightarrow> TypeDefinitionNode list" where
  "objectTypes [] = []"
| "objectTypes (ObjectTypeDefinition t # ds) = t # objectTypes ds"
| "objectTypes (_ # ds) = objectTypes ds"

definition fieldsOf :: "TypeDefinitionNode \<Rightarrow> FieldDefinitionNode list" where
  "fieldsOf t = (case type_fields t of None \<Rightarrow> [] | Some fs \<Rightarrow> fs)"

definition directiveNames :: "FieldDefinitionNode \<Rightarrow> string list" where
  "directiveNames f = (case directives f of None \<Rightarrow> [] | Some ds \<Rightarrow> map dir_name ds)"

definition violations_spec :: "DocumentNode \<Rightarrow> string list \<Rightarrow> string list \<Rightarrow> string list" where
  "violations_spec tree required targets =
     concat (map (\<lambda>t. map (\<lambda>f. type_name t @ ''.'' @ field_name f)
                       (filter (\<lambda>f. set (directiveNames f) \<inter> set required = {}) (fieldsOf t)))
                 (filter (\<lambda>t. type_name t \<in> set targets) (objectTypes (definitions tree))))"

text \<open>
  The same function with its effects written out. The store holds what a call can
  reach and change: the caller's declaration tree, the arrays allocated so far (an
  array's reference is its index), and the lines written to the console. The source
  does three kinds of things: it reads properties of the tree, it allocates the
  array \<open>result\<close> (\<open>const result = []\<close>), and it pushes on it (\<open>result.push(...)\<close>).
  Each is an operation on the store; the traversal walks the definitions it reads from
  the store's tree when it starts, and the call returns the reference \<open>result\<close>.
\<close>

record store =
  tree :: DocumentNode
  arrays :: "string list list"
  console :: "string list"

definition newArray :: "store \<Rightarrow> nat \<times> store" where
  "newArray h = (length (arrays h), h\<lparr> arrays := arrays h @ [[]] \<rparr>)"

definition array_push :: "nat \<Rightarrow> string \<Rightarrow> store \<Rightarrow> store" where
  "array_push a x h =
     (if a < length (arrays h) then h\<lparr> arrays := (arrays h)[a := arrays h ! a @ [x]] \<rparr> else h)"

fun forFields_st ::
  "string list \<Rightarrow> string \<Rightarrow> FieldDefinitionNode list \<Rightarrow> nat \<Rightarrow> store \<Rightarrow> store" where
  "forFields_st directivesToEnforce tname [] result h = h"
| "forFields_st directivesToEnforce tname (field # rest) result h =
     forFields_st directivesToEnforce tname rest result
       (if \<not> hasDirective directivesToEnforce field
        then array_push result (tname @ ''.'' @ field_name field) h
        else h)"

definition enterObjectTypeDefinition_st ::
  "string list \<Rightarrow> string list \<Rightarrow> TypeDefinitionNode \<Rightarrow> nat \<Rightarrow> store \<Rightarrow> store" where
  "enterObjectTypeDefinition_st directivesToEnforce typesToCheck typeNode result h =
     (if type_name typeNode \<in> set typesToCheck
      then forFields_st directivesToEnforce (type_name typeNode)
             (case type_fields typeNode of None \<Rightarrow> [] | Some fs \<Rightarrow> fs) result h
      else h)"

fun visit_st ::
  "string list \<Rightarrow> string list \<Rightarrow> DefinitionNode list \<Rightarrow> nat \<Rightarrow> store \<Rightarrow> store" where
  "visit_st directivesToEnforce typesToCheck [] result h = h"
| "visit_st directivesToEnforce typesToCheck (ObjectTypeDefinition typeNode # rest) result h =
     visit_st directivesToEnforce typesToCheck rest result
       (enterObjectTypeDefinition_st directivesToEnforce typesToCheck typeNode result h)"
| "visit_st directivesToEnforce typesToCheck (_ # rest) result h =
     visit_st directivesToEnforce typesToCheck rest result h"

definition validateDirectives_st :: "string list \<Rightarrow> string list \<Rightarrow> store \<Rightarrow> nat \<times> store" where
  "validateDirectives_st directivesToEnforce typesToCheck h =
     (case newArray h of
        (result, h') \<Rightarrow>
          (result, visit_st directivesToEnforce typesToCheck (definitions (tree h')) result h'))"

text \<open>
  A schema whose field \<open>items\<close> carries \<open>@limit\<close> without arguments, for the definition
  \<open>directive @limit(n: Int, m: Int = 5) on FIELD_DEFINITION\<close>, and a registration for
  \<open>@limit\<close> whose validation accepts everything.
\<close>

definition limitDefinition :: GraphQLDirective where
  "limitDefinition =
     \<lparr> directive_name = ''limit'',
       directive_args =
         [\<lparr> argument_name = ''n'', argument_type = NamedType ''Int'', defaultValue = None \<rparr>,
          \<lparr> argument_name = ''m'', argument_type = NamedType ''Int'', defaultValue = Some (JNum 5) \<rparr>] \<rparr>"

definition limitSchema :: GraphQLSchema where
  "limitSchema =
     \<lparr> typeMap =
         [(''Query'', GraphQLObjectType
             [(''items'', \<lparr> astNode = Some (markedField ''items'' ''limit'') \<rparr>)])],
       schema_directives = [limitDefinition] \<rparr>"

definition limitDirective :: RedwoodDirective where
  "limitDirective =
     \<lparr> schema_document = \<lparr> definitions = [DirectiveDefinition ''limit''] \<rparr>,
       validation = Some (\<lambda>args directiveArgs resolverParams. Inr ()),
       transformation = None \<rparr>"

text \<open>The nodes the visitor's callback is called on.\<close>

fun isObjectTypeDefinition :: "DefinitionNode \<Rightarrow> bool" where
  "isObjectTypeDefinition (ObjectTypeDefinition _) = True"
| "isObjectTypeDefinition _ = False"

section \<open>Properties of the validator\<close>

lemma hasDirective_iff:
  "hasDirective ds f \<longleftrightarrow> set (directiveNames f) \<inter> set ds \<noteq> {}"
  by (auto simp: hasDirective_def directiveNames_def list_ex_iff split: option.splits)

text \<open>The loop only appends to \<open>result\<close>: one entry per field without a required directive.\<close>

lemma forFields_append:
  "forFields ds tn fs acc =
     acc @ map (\<lambda>f. tn @ ''.'' @ field_name f) (filter (\<lambda>f. \<not> hasDirective ds f) fs)"
  by (induction fs arbitrary: acc) auto

lemma visit_append:
  "visit ds ts defs acc =
     acc @ concat (map (\<lambda>t. map (\<lambda>f. type_name t @ ''.'' @ field_name f)
                       (filter (\<lambda>f. \<not> hasDirective ds f) (fieldsOf t)))
                 (filter (\<lambda>t. type_name t \<in> set ts) (objectTypes defs)))"
proof (induction ds ts defs acc rule: visit.induct)
  case (2 ds ts typeNode rest result)
  then show ?case
    by (simp add: enterObjectTypeDefinition_def forFields_append fieldsOf_def)
qed simp_all

lemma validateDirectives_example1:
  "validateDirectives example1_testSchema [''noAuth'', ''auth''] [''Query'', ''Mutation'']
     = [''Query.noAuthError'', ''Query.test'']"
  by (simp add: validateDirectives_def example1_testSchema_def enterObjectTypeDefinition_def
      hasDirective_def plainField_def markedField_def)

text \<open>
  C1. For every declaration tree, required set and target set, \<open>validateDirectives\<close>
  returns exactly the sequence section 4.4 of the spec describes: the \<open>Type.field\<close>
  strings of the fields of the target object types that carry no directive of the
  required set, in declaration order. On the schema with \<open>Query { a  b @noAuth  c @auth }\<close>,
  required set \<open>{auth, noAuth}\<close> and target \<open>{Query}\<close> it returns exactly \<open>["Query.a"]\<close>.
\<close>

theorem validateDirectives_refines_spec:
  "validateDirectives doc required targets = violations_spec doc required targets
   \<and> validateDirectives abcSchema [''auth'', ''noAuth''] [''Query''] = [''Query.a'']"
proof
  show "validateDirectives doc required targets = violations_spec doc required targets"
    by (simp add: validateDirectives_def violations_spec_def visit_append hasDirective_iff)
  show "validateDirectives abcSchema [''auth'', ''noAuth''] [''Query''] = [''Query.a'']"
    by (simp add: validateDirectives_def abcSchema_def enterObjectTypeDefinition_def
        hasDirective_def plainField_def markedField_def)
qed

theorem validateDirectives_refines_spec_witness:
  "violations_spec example1_testSchema [''noAuth'', ''auth''] [''Query'', ''Mutation'']
     = [''Query.noAuthError'', ''Query.test'']"
  using validateDirectives_refines_spec
    [of example1_testSchema "[''noAuth'', ''auth'']" "[''Query'', ''Mutation'']", THEN conjunct1]
  by (simp add: validateDirectives_example1)

text \<open>
  The store version changes the store in one place only: it appends one array, whose
  contents are what the function on values computes from the store's tree.
\<close>

lemma forFields_st_eq:
  "a < length (arrays h) \<Longrightarrow>
   forFields_st ds tn fs a h = h\<lparr> arrays := (arrays h)[a := forFields ds tn fs (arrays h ! a)] \<rparr>"
  by (induction fs arbitrary: h) (simp_all add: array_push_def)

lemma enterObjectTypeDefinition_st_eq:
  "a < length (arrays h) \<Longrightarrow>
   enterObjectTypeDefinition_st ds ts typeNode a h
     = h\<lparr> arrays := (arrays h)[a := enterObjectTypeDefinition ds ts typeNode (arrays h ! a)] \<rparr>"
  by (simp add: enterObjectTypeDefinition_st_def enterObjectTypeDefinition_def forFields_st_eq)

lemma visit_st_eq:
  "a < length (arrays h) \<Longrightarrow>
   visit_st ds ts defs a h = h\<lparr> arrays := (arrays h)[a := visit ds ts defs (arrays h ! a)] \<rparr>"
proof (induction ds ts defs a h rule: visit_st.induct)
  case (2 ds ts typeNode rest a h)
  then show ?case by (simp add: enterObjectTypeDefinition_st_eq)
qed simp_all

lemma validateDirectives_st_eq:
  "validateDirectives_st ds ts h
     = (length (arrays h), h\<lparr> arrays := arrays h @ [validateDirectives (tree h) ds ts] \<rparr>)"
  by (simp add: validateDirectives_st_def newArray_def visit_st_eq validateDirectives_def)

text \<open>
  C7. \<open>validateDirectives\<close> is pure and deterministic. A call leaves the declaration
  tree, the console and every array that existed before as they were (its only
  writes go to the array it allocates), and what it returns is a function of the tree
  and the two parameters; a second call on the same tree with the same parameters,
  made after the first, returns a sequence identical to the first, in the same order.
\<close>

theorem validateDirectives_pure:
  assumes "validateDirectives_st ds ts h = (r1, h1)"
      and "validateDirectives_st ds ts h1 = (r2, h2)"
  shows "tree h1 = tree h \<and> console h1 = console h
       \<and> take (length (arrays h)) (arrays h1) = arrays h
       \<and> tree h2 = tree h \<and> console h2 = console h
       \<and> take (length (arrays h1)) (arrays h2) = arrays h1
       \<and> arrays h1 ! r1 = validateDirectives (tree h) ds ts
       \<and> arrays h2 ! r2 = arrays h1 ! r1"
  using assms by (auto simp: validateDirectives_st_eq nth_append)

theorem validateDirectives_pure_witness:
  "(case validateDirectives_st [''noAuth'', ''auth''] [''Query'', ''Mutation'']
           \<lparr> tree = example1_testSchema, arrays = [[''kept'']], console = [''line''] \<rparr> of
      (r1, h1) \<Rightarrow>
        (case validateDirectives_st [''noAuth'', ''auth''] [''Query'', ''Mutation''] h1 of
           (r2, h2) \<Rightarrow>
             arrays h1 ! r1 = [''Query.noAuthError'', ''Query.test'']
             \<and> arrays h2 ! r2 = [''Query.noAuthError'', ''Query.test'']
             \<and> take 1 (arrays h1) = [[''kept'']]
             \<and> tree h2 = example1_testSchema \<and> console h2 = [''line'']))"
proof -
  let ?h = "\<lparr> tree = example1_testSchema, arrays = [[''kept'']], console = [''line''] \<rparr>"
  let ?run = "validateDirectives_st [''noAuth'', ''auth''] [''Query'', ''Mutation'']"
  obtain r1 h1 where a: "?run ?h = (r1, h1)"
    by (cases "?run ?h")
  obtain r2 h2 where b: "?run h1 = (r2, h2)"
    by (cases "?run h1")
  note th = validateDirectives_pure [OF a b]
  from th have first: "arrays h1 ! r1 = [''Query.noAuthError'', ''Query.test'']"
    by (simp add: validateDirectives_example1)
  from th have second: "arrays h2 ! r2 = [''Query.noAuthError'', ''Query.test'']"
    by (simp add: validateDirectives_example1)
  from th have kept: "take 1 (arrays h1) = [[''kept'']]"
    by simp
  from th have frame: "tree h2 = example1_testSchema" "console h2 = [''line'']"
    by simp_all
  from a b first second kept frame show ?thesis by simp
qed

lemma visit_filter:
  "visit ds ts (filter isObjectTypeDefinition defs) acc = visit ds ts defs acc"
  by (induction ds ts defs acc rule: visit.induct) simp_all

lemma visit_none:
  "\<forall>d\<in>set defs. \<not> isObjectTypeDefinition d \<Longrightarrow> visit ds ts defs acc = acc"
  by (induction ds ts defs acc rule: visit.induct) simp_all

text \<open>
  C10. \<open>validateDirectives\<close> inspects only \<open>ObjectTypeDefinition\<close> nodes: dropping every
  other node from the tree (object type extensions, interfaces, ...) changes nothing in
  the result, so a field declared on such a node is never reported for it, whatever
  directives it lacks; a tree without \<open>ObjectTypeDefinition\<close> nodes has no violations.
\<close>

theorem validateDirectives_only_ObjectTypeDefinition:
  "validateDirectives doc ds ts =
     validateDirectives \<lparr> definitions = filter isObjectTypeDefinition (definitions doc) \<rparr> ds ts
   \<and> ((\<forall>d\<in>set (definitions doc). \<not> isObjectTypeDefinition d) \<longrightarrow>
        validateDirectives doc ds ts = [])"
  by (simp add: validateDirectives_def visit_filter visit_none)

theorem validateDirectives_only_ObjectTypeDefinition_witness:
  "validateDirectives
     \<lparr> definitions =
         [ObjectTypeExtension \<lparr> type_name = ''Query'', type_fields = Some [plainField ''a''] \<rparr>,
          InterfaceTypeDefinition \<lparr> type_name = ''Query'', type_fields = Some [plainField ''b''] \<rparr>] \<rparr>
     [''auth''] [''Query''] = []"
  by (rule validateDirectives_only_ObjectTypeDefinition [THEN conjunct2, THEN mp]) simp

section \<open>Properties of the directive locator\<close>

text \<open>
  C4, as stated, fails: with the parent type absent from the schema, or the field
  absent from the parent type's fields, \<open>getDirective\<close> raises a \<open>TypeError\<close>.
\<close>

theorem getDirective_raises_counterexample:
  "getDirective \<lparr> parentType = ''Query'', fieldName = ''me'',
                   info_schema = \<lparr> typeMap = [], schema_directives = [] \<rparr> \<rparr> ''auth''
     = Inl TypeError
   \<and> getDirective \<lparr> parentType = ''Query'', fieldName = ''missing'', info_schema = testSchema \<rparr> ''auth''
     = Inl TypeError"
  by (simp add: getDirective_def schema_getType_def testSchema_def)

text \<open>
  C4, amended. \<open>getDirective\<close> returns "not found" rather than raising an error when
  the field has no declaration node, and it never raises when the parent type and the
  field are present; when the parent type is absent from the schema, or the field is
  absent from the parent type's fields, it raises a \<open>TypeError\<close>.
\<close>

theorem getDirective_soft_failure:
  "(schema_getType (info_schema info) (parentType info) = None \<longrightarrow>
      getDirective info name = Inl TypeError)
   \<and> (\<forall>t fs. schema_getType (info_schema info) (parentType info) = Some t \<and> getFields t = Some fs
         \<and> map_of fs (fieldName info) = None \<longrightarrow>
      getDirective info name = Inl TypeError)
   \<and> (\<forall>t fs f. schema_getType (info_schema info) (parentType info) = Some t \<and> getFields t = Some fs
         \<and> map_of fs (fieldName info) = Some f \<and> astNode f = None \<longrightarrow>
      getDirective info name = Inr None)
   \<and> (\<forall>t fs f. schema_getType (info_schema info) (parentType info) = Some t \<and> getFields t = Some fs
         \<and> map_of fs (fieldName info) = Some f \<longrightarrow>
      (\<exists>r. getDirective info name = Inr r))"
  by (simp add: getDirective_def)

theorem getDirective_soft_failure_witness:
  "getDirective \<lparr> parentType = ''Query'', fieldName = ''x'',
                   info_schema = \<lparr> typeMap = [(''Query'', GraphQLObjectType [(''x'', \<lparr> astNode = None \<rparr>)])],
                                    schema_directives = [] \<rparr> \<rparr> ''auth''
     = Inr None
   \<and> getDirective \<lparr> parentType = ''Query'', fieldName = ''y'',
                   info_schema = \<lparr> typeMap = [(''Query'', GraphQLObjectType [(''x'', \<lparr> astNode = None \<rparr>)])],
                                    schema_directives = [] \<rparr> \<rparr> ''auth''
     = Inl TypeError
   \<and> getDirective \<lparr> parentType = ''Mutation'', fieldName = ''x'',
                   info_schema = \<lparr> typeMap = [(''Query'', GraphQLObjectType [(''x'', \<lparr> astNode = None \<rparr>)])],
                                    schema_directives = [] \<rparr> \<rparr> ''auth''
     = Inl TypeError"
proof -
  let ?s = "\<lparr> typeMap = [(''Query'', GraphQLObjectType [(''x'', \<lparr> astNode = None \<rparr>)])],
              schema_directives = [] \<rparr>"
  let ?i = "\<lambda>t f. \<lparr> parentType = t, fieldName = f, info_schema = ?s \<rparr>"
  note th = getDirective_soft_failure
  have "getDirective (?i ''Query'' ''x'') ''auth'' = Inr None"
    using th [of "?i ''Query'' ''x''" "''auth''"] by (simp add: schema_getType_def)
  moreover have "getDirective (?i ''Query'' ''y'') ''auth'' = Inl TypeError"
    using th [of "?i ''Query'' ''y''" "''auth''"] by (simp add: schema_getType_def)
  moreover have "getDirective (?i ''Mutation'' ''x'') ''auth'' = Inl TypeError"
    using th [of "?i ''Mutation'' ''x''" "''auth''"] by (simp add: schema_getType_def)
  ultimately show ?thesis by simp
qed

section \<open>Properties of the @auth validation\<close>

lemma getProp_truthy: "truthy v \<Longrightarrow> \<exists>r. getProp v k = Inr r"
  by (cases v) simp_all

text \<open>
  C9, as stated, fails on a context value that has a \<open>correntUser\<close> property (the role
  is then compared and the error raised), and on one whose \<open>currentUser\<close> is not null
  but falsy.
\<close>

theorem requiresAuth_validation_counterexample:
  "requiresAuth_validation
      (testArgs (JObj [(''currentUser'', JObj [(''role'', JStr ''USER'')]),
                       (''correntUser'', JObj [(''role'', JStr ''USER'')])]))
      [(''role'', JStr ''ADMIN'')] (testPayload ''secretPassword'' JNull)
     = Inl (Error ''You don't have the required role 'ADMIN' for this field!'')
   \<and> requiresAuth_validation (testArgs (JObj [(''currentUser'', JNum 0)]))
      [(''role'', JStr ''USER'')] (testPayload ''me'' JNull)
     = Inl (Error ''Oops, go away!'')"
  by (simp add: requiresAuth_validation_def roleMismatchError_def testArgs_def)

text \<open>
  C9, amended. For every execution context whose context value has a truthy
  \<open>currentUser\<close> and no truthy \<open>correntUser\<close> property, the validation of \<open>@auth\<close> returns
  successfully, whatever the user's role and the directive's role argument are; the
  role-mismatch error is raised only for a context value with a truthy \<open>correntUser\<close>,
  the property the comparison reads.
\<close>

theorem requiresAuth_validation_ignores_role:
  assumes "getProp (contextValue args) ''currentUser'' = Inr user" and "truthy user"
      and "getProp (contextValue args) ''correntUser'' = Inr other"
  shows "(\<not> truthy other \<longrightarrow> requiresAuth_validation args directiveArgs resolverParams = Inr ())
       \<and> (requiresAuth_validation args directiveArgs resolverParams \<noteq> Inr () \<longrightarrow>
            truthy other \<and>
            requiresAuth_validation args directiveArgs resolverParams
              = Inl (roleMismatchError
                       (case map_of directiveArgs ''role'' of None \<Rightarrow> JUndefined | Some r \<Rightarrow> r)))"
proof (cases "truthy other")
  case False
  with assms show ?thesis by (simp add: requiresAuth_validation_def)
next
  case True
  then obtain r where "getProp other ''role'' = Inr r"
    using getProp_truthy by blast
  with True assms show ?thesis
    by (simp add: requiresAuth_validation_def)
qed

theorem requiresAuth_validation_ignores_role_witness:
  "requiresAuth_validation (testArgs (JObj [(''currentUser'', JObj [(''role'', JStr ''USER'')])]))
      [(''role'', JStr ''ADMIN'')] (testPayload ''secretPassword'' JNull) = Inr ()"
  using requiresAuth_validation_ignores_role
     [of "testArgs (JObj [(''currentUser'', JObj [(''role'', JStr ''USER'')])])"
         "JObj [(''role'', JStr ''USER'')]" JUndefined "[(''role'', JStr ''ADMIN'')]"
         "testPayload ''secretPassword'' JNull"]
  by (simp add: testArgs_def)

section \<open>Properties of the interception pipeline\<close>

text \<open>The host's hook calls over a list of hooks split in two.\<close>

lemma callHooks_append:
  "callHooks (pre @ post) payload =
     (case callHooks pre payload of
        (evs, Inl e) \<Rightarrow> (evs, Inl e)
      | (evs, Inr afterCalls) \<Rightarrow>
          (case callHooks post payload of
             (evs', Inl e) \<Rightarrow> (evs @ evs', Inl e)
           | (evs', Inr afterCalls') \<Rightarrow> (evs @ evs', Inr (afterCalls @ afterCalls'))))"
  by (induction pre) (auto split: prod.splits sum.splits option.splits)

lemma callHooks_failing:
  assumes "callHooks pre payload = (evs, Inr afterCalls)" and "hook payload = (evs', Inl e)"
  shows "callHooks (pre @ hook # post) payload = (evs @ evs', Inl e)"
  using assms by (simp add: callHooks_append)

lemma callHooks_skip:
  assumes "hook payload = ([], Inr None)"
  shows "callHooks (pre @ hook # post) payload = callHooks (pre @ post) payload"
  using assms by (auto simp: callHooks_append split: prod.splits sum.splits)

lemma useRedwoodDirectives_test:
  "useRedwoodDirectives decode requiresAuthDirective
     = ([ConsoleLog ''auth''], Inr (onResolverCalled decode requiresAuthDirective ''auth''))"
  "useRedwoodDirectives decode uppercaseDirective
     = ([ConsoleLog ''uppercase''], Inr (onResolverCalled decode uppercaseDirective ''uppercase''))"
  by (simp_all add: useRedwoodDirectives_def requiresAuthDirective_def uppercaseDirective_def)

text \<open>The locator and the definition lookup on the fields of the example schema.\<close>

lemma getDirective_auth:
  "getDirective (p_info (testPayload ''me'' ctx)) ''auth'' = Inr (Some (authNode ''USER''))"
  "getDirective (p_info (testPayload ''secretPassword'' ctx)) ''auth'' = Inr (Some (authNode ''ADMIN''))"
  by (simp_all add: getDirective_def testPayload_def testSchema_def schema_getType_def
      authField_def authNode_def)

lemma getDirective_uppercase:
  "getDirective (p_info (testPayload ''testUpper'' ctx)) ''uppercase''
     = Inr (Some \<lparr> dir_name = ''uppercase'', arguments = Some [] \<rparr>)"
  by (simp add: getDirective_def testPayload_def testSchema_def schema_getType_def markedField_def)

lemma schema_getDirective_test:
  "schema_getDirective (schema (testArgs ctx)) ''auth'' = Some authDefinition"
  "schema_getDirective (schema (testArgs ctx)) ''uppercase'' = Some uppercaseDefinition"
  by (simp_all add: schema_getDirective_def testArgs_def testSchema_def authDefinition_def
      uppercaseDefinition_def)

lemma decode_auth:
  "decodeDirectiveArgs (getDirectiveValues coerceInputValue) authDefinition (authNode r) None
     = Inr [(''role'', JStr r)]"
  by (simp add: decodeDirectiveArgs_def getDirectiveValues_def suppliedValue_def authDefinition_def
      authNode_def argumentsOf_def)

lemma decode_uppercase:
  "getDirectiveValues coerceInputValue uppercaseDefinition
      [\<lparr> dir_name = ''uppercase'', arguments = Some [] \<rparr>] None = Inr (Some [])"
  by (simp add: getDirectiveValues_def uppercaseDefinition_def argumentsOf_def)

lemma toUpperCase_dotan: "toUpperCase ''dotan'' = ''DOTAN''"
  by code_simp

lemma onResolverCalled_not_found:
  "getDirective (p_info payload) directiveName = Inr None \<Longrightarrow>
   onResolverCalled decode redwoodDirective directiveName executionArgs payload = ([], Inr None)"
  by (simp add: onResolverCalled_def)

text \<open>
  C3. When the declaration of the resolved field carries no directive annotation named
  as the hook registration's directive, the pipeline is a no-op: \<open>onResolverCalled\<close>
  calls neither callback and returns no function to run after the resolver, so
  \<open>setResult\<close> is never called and the resolver's result passes through unchanged;
  among other hooks, the hook can be left out without any difference.
\<close>

theorem no_directive_is_noop:
  assumes "schema_getType (info_schema (p_info payload)) (parentType (p_info payload)) = Some t"
      and "getFields t = Some fs"
      and "map_of fs (fieldName (p_info payload)) = Some f"
      and "directiveName \<notin> set (case astNode f of None \<Rightarrow> [] | Some node \<Rightarrow> directiveNames node)"
  shows "onResolverCalled decode redwoodDirective directiveName executionArgs payload = ([], Inr None)
       \<and> resolveField [onResolverCalled decode redwoodDirective directiveName executionArgs]
            payload resolverResult = ([], Inr resolverResult)
       \<and> resolveField (pre @ onResolverCalled decode redwoodDirective directiveName executionArgs # post)
            payload resolverResult = resolveField (pre @ post) payload resolverResult"
proof -
  let ?hook = "onResolverCalled decode redwoodDirective directiveName executionArgs"
  have "getDirective (p_info payload) directiveName = Inr None"
    using assms
    by (auto simp: getDirective_def directiveNames_def find_None_iff split: option.splits)
  then have h: "?hook payload = ([], Inr None)"
    by (rule onResolverCalled_not_found)
  then have "resolveField [?hook] payload resolverResult = ([], Inr resolverResult)"
    by (simp add: resolveField_def)
  moreover from h
  have "resolveField (pre @ ?hook # post) payload resolverResult
          = resolveField (pre @ post) payload resolverResult"
    by (simp add: resolveField_def callHooks_skip)
  ultimately show ?thesis using h by simp
qed

theorem no_directive_is_noop_witness:
  "resolveField (testHooks (JObj [])) (testPayload ''simple'' (JObj [])) (JStr ''Hi'')
     = ([], Inr (JStr ''Hi''))"
proof -
  let ?p = "testPayload ''simple'' (JObj [])"
  let ?fs = "[(''me'', authField ''me'' ''USER''),
              (''simple'', \<lparr> astNode = Some (plainField ''simple'') \<rparr>),
              (''secretPassword'', authField ''secretPassword'' ''ADMIN''),
              (''testUpper'', \<lparr> astNode = Some (markedField ''testUpper'' ''uppercase'') \<rparr>)]"
  let ?auth = "onResolverCalled (getDirectiveValues coerceInputValue) requiresAuthDirective ''auth''
                 (testArgs (JObj []))"
  let ?upper = "onResolverCalled (getDirectiveValues coerceInputValue) uppercaseDirective ''uppercase''
                 (testArgs (JObj []))"
  have t: "schema_getType (info_schema (p_info ?p)) (parentType (p_info ?p))
             = Some (GraphQLObjectType ?fs)"
    by (simp add: testPayload_def testSchema_def schema_getType_def)
  have f: "map_of ?fs (fieldName (p_info ?p)) = Some \<lparr> astNode = Some (plainField ''simple'') \<rparr>"
    by (simp add: testPayload_def)
  have a: "resolveField ([] @ ?auth # [?upper]) ?p (JStr ''Hi'')
             = resolveField ([] @ [?upper]) ?p (JStr ''Hi'')"
    by (rule no_directive_is_noop [OF t _ f, THEN conjunct2, THEN conjunct2])
       (simp_all add: plainField_def directiveNames_def)
  have b: "resolveField [?upper] ?p (JStr ''Hi'') = ([], Inr (JStr ''Hi''))"
    by (rule no_directive_is_noop [OF t _ f, THEN conjunct2, THEN conjunct1])
       (simp_all add: plainField_def directiveNames_def)
  from a b show ?thesis by (simp add: testHooks_def)
qed

text \<open>
  C2. When the field carries the registration's directive and the registered
  validation callback, called with the decoded arguments, throws, \<open>onResolverCalled\<close>
  fails with that error after the single call of the validation: the resolution of the
  field aborts with that error, the transformation callback is not called and the
  result is not replaced. A query for the \<open>@auth\<close> field \<open>me\<close> with an empty context
  fails so.
\<close>

theorem validation_failure_aborts:
  assumes "getDirective (p_info payload) directiveName = Inr (Some directiveNode)"
      and "schema_getDirective (schema executionArgs) (dir_name directiveNode) = Some directive"
      and "decodeDirectiveArgs decode directive directiveNode (variableValues executionArgs)
             = Inr directiveArgs"
      and "validation redwoodDirective = Some validate"
      and "validate executionArgs directiveArgs payload = Inl e"
      and "callHooks pre payload = (evs, Inr afterCalls)"
  shows "onResolverCalled decode redwoodDirective directiveName executionArgs payload
           = ([ValidationCalled directiveArgs], Inl e)
       \<and> resolveField (pre @ onResolverCalled decode redwoodDirective directiveName executionArgs # post)
            payload resolverResult
           = (evs @ [ValidationCalled directiveArgs], Inl e)"
proof -
  have h: "onResolverCalled decode redwoodDirective directiveName executionArgs payload
           = ([ValidationCalled directiveArgs], Inl e)"
    using assms(1-5) by (simp add: onResolverCalled_def)
  with assms(6) show ?thesis
    by (simp add: resolveField_def callHooks_failing)
qed

theorem validation_failure_aborts_witness:
  "resolveField (testHooks (JObj [])) (testPayload ''me'' (JObj [])) JUndefined
     = ([ValidationCalled [(''role'', JStr ''USER'')]], Inl (Error ''Oops, go away!''))"
proof -
  let ?p = "testPayload ''me'' (JObj [])"
  let ?ea = "testArgs (JObj [])"
  let ?decode = "getDirectiveValues coerceInputValue"
  have "resolveField ([] @ onResolverCalled ?decode requiresAuthDirective ''auth'' ?ea
                        # [onResolverCalled ?decode uppercaseDirective ''uppercase'' ?ea])
          ?p JUndefined
        = ([] @ [ValidationCalled [(''role'', JStr ''USER'')]], Inl (Error ''Oops, go away!''))"
  proof (rule validation_failure_aborts [THEN conjunct2])
    show "getDirective (p_info ?p) ''auth'' = Inr (Some (authNode ''USER''))"
      by (rule getDirective_auth)
    show "schema_getDirective (schema ?ea) (dir_name (authNode ''USER'')) = Some authDefinition"
      by (simp add: schema_getDirective_test authNode_def)
    show "decodeDirectiveArgs ?decode authDefinition (authNode ''USER'') (variableValues ?ea)
            = Inr [(''role'', JStr ''USER'')]"
      by (simp add: decode_auth testArgs_def)
    show "validation requiresAuthDirective = Some requiresAuth_validation"
      by (simp add: requiresAuthDirective_def)
    show "requiresAuth_validation ?ea [(''role'', JStr ''USER'')] ?p = Inl (Error ''Oops, go away!'')"
      by (simp add: requiresAuth_validation_def testArgs_def)
    show "callHooks [] ?p = ([], Inr [])"
      by simp
  qed
  then show ?thesis by (simp add: testHooks_def)
qed

text \<open>
  In the decoder modelled above, an annotation without arguments for a definition that
  declares no required argument and no default decodes to the object without
  properties.
\<close>

lemma getArgumentValues_nothing_declared:
  assumes "\<forall>a\<in>set argDefs. \<not> isNonNullType (argument_type a) \<and> defaultValue a = None"
  shows "getArgumentValues coerce argDefs [] vars = Inr []"
  using assms by (induction argDefs) (simp_all add: suppliedValue_def)

lemma getDirectiveValues_no_arguments:
  assumes "dir_name directiveNode = directive_name directive"
      and "argumentsOf directiveNode = []"
      and "\<forall>a\<in>set (directive_args directive). \<not> isNonNullType (argument_type a) \<and> defaultValue a = None"
  shows "getDirectiveValues coerce directive [directiveNode] vars = Inr (Some [])"
  using assms by (simp add: getDirectiveValues_def getArgumentValues_nothing_declared)

lemma schema_getDirective_name:
  "schema_getDirective s n = Some d \<Longrightarrow> directive_name d = n"
  by (auto simp: schema_getDirective_def find_Some_iff)

text \<open>What \<open>|| {}\<close> does when the decoder returns \<open>undefined\<close>.\<close>

lemma decodeDirectiveArgs_undefined:
  "decode directive [directiveNode] vars = Inr None \<Longrightarrow>
   decodeDirectiveArgs decode directive directiveNode vars = Inr []"
  by (simp add: decodeDirectiveArgs_def)

text \<open>
  C5, as stated, fails: for the definition \<open>@limit(n: Int, m: Int = 5)\<close> the annotation
  \<open>@limit\<close>, which supplies no argument values at all, decodes to the mapping
  \<open>{m: 5}\<close>, and that is what the validation receives; for \<open>@auth(role: Role!)\<close> the
  annotation \<open>@auth\<close> does not decode at all.
\<close>

theorem bare_annotation_counterexample:
  "onResolverCalled (getDirectiveValues coerceInputValue) limitDirective ''limit''
       \<lparr> schema = limitSchema, variableValues = None, contextValue = JObj [] \<rparr>
       \<lparr> p_root = JUndefined, p_args = [], p_context = JObj [],
         p_info = \<lparr> parentType = ''Query'', fieldName = ''items'', info_schema = limitSchema \<rparr> \<rparr>
     = ([ValidationCalled [(''m'', JNum 5)]],
        Inr (Some (afterResolver limitDirective
                     \<lparr> schema = limitSchema, variableValues = None, contextValue = JObj [] \<rparr>
                     [(''m'', JNum 5)]
                     \<lparr> p_root = JUndefined, p_args = [], p_context = JObj [],
                       p_info = \<lparr> parentType = ''Query'', fieldName = ''items'',
                                  info_schema = limitSchema \<rparr> \<rparr>)))
   \<and> decodeDirectiveArgs (getDirectiveValues coerceInputValue) authDefinition
        \<lparr> dir_name = ''auth'', arguments = Some [] \<rparr> None
     = Inl (GraphQLError ''invalid directive usage: required argument role was not provided'')"
  by (simp add: onResolverCalled_def getDirective_def schema_getType_def limitSchema_def
      markedField_def schema_getDirective_def limitDefinition_def limitDirective_def
      decodeDirectiveArgs_def getDirectiveValues_def argumentsOf_def suppliedValue_def
      authDefinition_def)

text \<open>
  C5, amended. For every directive annotation found on a resolved field whose
  directive definition exists on the schema: when the annotation supplies no argument
  values at all and the definition declares no required argument and no default value,
  the argument decoder produces the empty mapping (never \<open>null\<close> or \<open>undefined\<close>), and
  that mapping is the decoded directive arguments passed to the callbacks.
\<close>

theorem no_arguments_gives_empty_mapping:
  assumes "getDirective (p_info payload) directiveName = Inr (Some directiveNode)"
      and "schema_getDirective (schema executionArgs) (dir_name directiveNode) = Some directive"
      and "argumentsOf directiveNode = []"
      and "\<forall>a\<in>set (directive_args directive). \<not> isRequiredArgument a \<and> defaultValue a = None"
  shows "decodeDirectiveArgs (getDirectiveValues coerce) directive directiveNode
           (variableValues executionArgs) = Inr []
       \<and> onResolverCalled (getDirectiveValues coerce) redwoodDirective directiveName
           executionArgs payload =
           (case validation redwoodDirective of
              None \<Rightarrow> ([], Inr (Some (afterResolver redwoodDirective executionArgs [] payload)))
            | Some validate \<Rightarrow>
                (case validate executionArgs [] payload of
                   Inl e \<Rightarrow> ([ValidationCalled []], Inl e)
                 | Inr _ \<Rightarrow>
                     ([ValidationCalled []],
                      Inr (Some (afterResolver redwoodDirective executionArgs [] payload)))))"
proof -
  have "dir_name directiveNode = directive_name directive"
    using assms(2) by (simp add: schema_getDirective_name)
  moreover from assms(4)
  have "\<forall>a\<in>set (directive_args directive).
          \<not> isNonNullType (argument_type a) \<and> defaultValue a = None"
    by (auto simp: isRequiredArgument_def)
  ultimately
  have "getDirectiveValues coerce directive [directiveNode] (variableValues executionArgs)
          = Inr (Some [])"
    using assms(3) by (simp add: getDirectiveValues_no_arguments)
  then have d: "decodeDirectiveArgs (getDirectiveValues coerce) directive directiveNode
                  (variableValues executionArgs) = Inr []"
    by (simp add: decodeDirectiveArgs_def)
  with assms(1,2) show ?thesis
    by (simp add: onResolverCalled_def split: option.splits sum.splits)
qed

theorem no_arguments_gives_empty_mapping_witness:
  "resolveField
     [onResolverCalled (getDirectiveValues coerceInputValue) uppercaseDirective ''uppercase''
        (testArgs (JObj []))]
     (testPayload ''testUpper'' (JObj [])) (JStr ''dotan'')
   = ([TransformationCalled [] (JStr ''dotan''), SetResultCalled (JStr ''DOTAN'')],
      Inr (JStr ''DOTAN''))"
proof -
  let ?ea = "testArgs (JObj [])"
  let ?p = "testPayload ''testUpper'' (JObj [])"
  let ?node = "\<lparr> dir_name = ''uppercase'', arguments = Some [] \<rparr>"
  let ?decode = "getDirectiveValues coerceInputValue"
  have found: "getDirective (p_info ?p) ''uppercase'' = Inr (Some ?node)"
    by (rule getDirective_uppercase)
  have def: "schema_getDirective (schema ?ea) (dir_name ?node) = Some uppercaseDefinition"
    by (simp add: schema_getDirective_test)
  have bare: "argumentsOf ?node = []"
    by (simp add: argumentsOf_def)
  have none: "\<forall>a\<in>set (directive_args uppercaseDefinition).
                \<not> isRequiredArgument a \<and> defaultValue a = None"
    by (simp add: uppercaseDefinition_def)
  from no_arguments_gives_empty_mapping
    [where coerce = coerceInputValue and redwoodDirective = uppercaseDirective,
     OF found def bare none]
  have "onResolverCalled ?decode uppercaseDirective ''uppercase'' ?ea ?p
          = ([], Inr (Some (afterResolver uppercaseDirective ?ea [] ?p)))"
    by (simp add: uppercaseDirective_def)
  then show ?thesis
    by (simp add: resolveField_def afterResolver_def uppercaseDirective_def
        uppercase_transformation_def toUpperCase_dotan)
qed

lemma suppliedValue_absent:
  "argName \<notin> arg_name ` set argumentNodes \<Longrightarrow> suppliedValue argumentNodes vars argName = None"
proof -
  assume "argName \<notin> arg_name ` set argumentNodes"
  then have "find (\<lambda>a. arg_name a = argName) argumentNodes = None"
    by (auto simp: find_None_iff)
  then show ?thesis by (simp add: suppliedValue_def)
qed

lemma getArgumentValues_missing_required:
  assumes "argDef \<in> set argDefs" and "isRequiredArgument argDef"
      and "suppliedValue argumentNodes vars (argument_name argDef) = None"
  shows "\<exists>e. getArgumentValues coerce argDefs argumentNodes vars = Inl e"
  using assms(1)
proof (induction argDefs)
  case Nil
  then show ?case by simp
next
  case (Cons a rest)
  show ?case
  proof (cases "a = argDef")
    case True
    with assms(2,3) show ?thesis by (simp add: isRequiredArgument_def)
  next
    case False
    with Cons obtain e where "getArgumentValues coerce rest argumentNodes vars = Inl e"
      by auto
    then show ?thesis by (simp split: option.splits)
  qed
qed

text \<open>
  C6. For a directive definition with a required argument and an annotation that
  supplies no value for it, whatever other arguments the annotation has: the decode
  step fails, and the failure is the error of the field's resolution; no callback is
  called and no value is put in the argument's place.
\<close>

theorem missing_required_argument_fails:
  assumes "getDirective (p_info payload) directiveName = Inr (Some directiveNode)"
      and "schema_getDirective (schema executionArgs) (dir_name directiveNode) = Some directive"
      and "argDef \<in> set (directive_args directive)" and "isRequiredArgument argDef"
      and "argument_name argDef \<notin> arg_name ` set (argumentsOf directiveNode)"
      and "callHooks pre payload = (evs, Inr afterCalls)"
  shows "\<exists>e. getDirectiveValues coerce directive [directiveNode] (variableValues executionArgs) = Inl e
           \<and> onResolverCalled (getDirectiveValues coerce) redwoodDirective directiveName
                executionArgs payload = ([], Inl e)
           \<and> resolveField
                (pre @ onResolverCalled (getDirectiveValues coerce) redwoodDirective directiveName
                         executionArgs # post)
                payload resolverResult = (evs, Inl e)"
proof -
  have n: "dir_name directiveNode = directive_name directive"
    using assms(2) by (simp add: schema_getDirective_name)
  obtain e where e: "getArgumentValues coerce (directive_args directive) (argumentsOf directiveNode)
                       (variableValues executionArgs) = Inl e"
    using getArgumentValues_missing_required [OF assms(3,4) suppliedValue_absent [OF assms(5)]]
    by blast
  with n have d: "getDirectiveValues coerce directive [directiveNode] (variableValues executionArgs) = Inl e"
    by (simp add: getDirectiveValues_def)
  with assms(1,2) have h: "onResolverCalled (getDirectiveValues coerce) redwoodDirective directiveName
                executionArgs payload = ([], Inl e)"
    by (simp add: onResolverCalled_def decodeDirectiveArgs_def)
  with assms(6) have "resolveField
                (pre @ onResolverCalled (getDirectiveValues coerce) redwoodDirective directiveName
                         executionArgs # post)
                payload resolverResult = (evs, Inl e)"
    by (simp add: resolveField_def callHooks_failing)
  with d h show ?thesis by blast
qed

theorem missing_required_argument_fails_witness:
  "resolveField
     [onResolverCalled (getDirectiveValues coerceInputValue) requiresAuthDirective ''auth''
        \<lparr> schema = bareAuthSchema, variableValues = None,
          contextValue = JObj [(''currentUser'', JObj [(''role'', JStr ''ADMIN'')])] \<rparr>]
     \<lparr> p_root = JUndefined, p_args = [], p_context = JNull,
       p_info = \<lparr> parentType = ''Query'', fieldName = ''secret'', info_schema = bareAuthSchema \<rparr> \<rparr>
     (JStr ''123456'')
   = ([], Inl (GraphQLError ''invalid directive usage: required argument role was not provided''))"
proof -
  let ?ea = "\<lparr> schema = bareAuthSchema, variableValues = None,
          contextValue = JObj [(''currentUser'', JObj [(''role'', JStr ''ADMIN'')])] \<rparr>"
  let ?p = "\<lparr> p_root = JUndefined, p_args = [], p_context = JNull,
       p_info = \<lparr> parentType = ''Query'', fieldName = ''secret'', info_schema = bareAuthSchema \<rparr> \<rparr>"
  let ?node = "\<lparr> dir_name = ''auth'', arguments = Some [] \<rparr>"
  let ?role = "\<lparr> argument_name = ''role'', argument_type = NonNullType (NamedType ''Role''),
                 defaultValue = None \<rparr>"
  let ?hook = "onResolverCalled (getDirectiveValues coerceInputValue) requiresAuthDirective ''auth'' ?ea"
  have found: "getDirective (p_info ?p) ''auth'' = Inr (Some ?node)"
    by (simp add: getDirective_def bareAuthSchema_def schema_getType_def markedField_def)
  have def: "schema_getDirective (schema ?ea) (dir_name ?node) = Some authDefinition"
    by (simp add: schema_getDirective_def bareAuthSchema_def authDefinition_def)
  have arg: "?role \<in> set (directive_args authDefinition)"
    by (simp add: authDefinition_def)
  have req: "isRequiredArgument ?role"
    by (simp add: isRequiredArgument_def)
  have absent: "argument_name ?role \<notin> arg_name ` set (argumentsOf ?node)"
    by (simp add: argumentsOf_def)
  have pre: "callHooks [] ?p = ([], Inr [])"
    by simp
  from missing_required_argument_fails
    [where coerce = coerceInputValue and redwoodDirective = requiresAuthDirective
       and post = "[]" and resolverResult = "JStr ''123456''",
     OF found def arg req absent pre]
  obtain e where e: "getDirectiveValues coerceInputValue authDefinition [?node] (variableValues ?ea) = Inl e"
    and r: "resolveField ([] @ ?hook # []) ?p (JStr ''123456'') = ([], Inl e)"
    by blast
  have "getDirectiveValues coerceInputValue authDefinition [?node] (variableValues ?ea)
          = Inl (GraphQLError ''invalid directive usage: required argument role was not provided'')"
    by (simp add: getDirectiveValues_def authDefinition_def argumentsOf_def suppliedValue_def)
  with e r show ?thesis by simp
qed

lemma uppercase_hook:
  assumes "getDirective (p_info payload) ''uppercase'' = Inr (Some directiveNode)"
      and "schema_getDirective (schema executionArgs) (dir_name directiveNode) = Some directive"
      and "decodeDirectiveArgs decode directive directiveNode (variableValues executionArgs)
             = Inr directiveArgs"
  shows "onResolverCalled decode uppercaseDirective ''uppercase'' executionArgs payload
           = ([], Inr (Some (afterResolver uppercaseDirective executionArgs directiveArgs payload)))"
  using assms by (simp add: onResolverCalled_def uppercaseDirective_def)

lemma afterResolver_uppercase:
  "afterResolver uppercaseDirective executionArgs directiveArgs payload v =
     ([TransformationCalled directiveArgs v,
       SetResultCalled (case v of JStr s \<Rightarrow> JStr (toUpperCase s) | _ \<Rightarrow> v)],
      Inr (case v of JStr s \<Rightarrow> JStr (toUpperCase s) | _ \<Rightarrow> v))"
  by (cases v) (simp_all add: afterResolver_def uppercaseDirective_def uppercase_transformation_def
      toUpperCase_def)

text \<open>
  C8. For a field carrying \<open>@uppercase\<close>, with the uppercasing transformation
  registered and no other hook returning a function for this field: when the resolver
  returns the string \<open>"dotan"\<close> the field's result is \<open>"DOTAN"\<close>, and when it returns a
  value that is not a string the field's result is that value.
\<close>

theorem uppercase_directive_result:
  assumes "getDirective (p_info payload) ''uppercase'' = Inr (Some directiveNode)"
      and "schema_getDirective (schema executionArgs) (dir_name directiveNode) = Some directive"
      and "decodeDirectiveArgs decode directive directiveNode (variableValues executionArgs)
             = Inr directiveArgs"
      and "callHooks pre payload = (evs, Inr [])"
      and "callHooks post payload = (evs', Inr [])"
  shows "resolveField (pre @ onResolverCalled decode uppercaseDirective ''uppercase'' executionArgs # post)
           payload (JStr ''dotan'')
         = (evs @ evs' @ [TransformationCalled directiveArgs (JStr ''dotan''),
                          SetResultCalled (JStr ''DOTAN'')],
            Inr (JStr ''DOTAN''))
       \<and> ((\<forall>s. v \<noteq> JStr s) \<longrightarrow>
            resolveField (pre @ onResolverCalled decode uppercaseDirective ''uppercase'' executionArgs # post)
              payload v
            = (evs @ evs' @ [TransformationCalled directiveArgs v, SetResultCalled v], Inr v))"
proof -
  let ?hook = "onResolverCalled decode uppercaseDirective ''uppercase'' executionArgs"
  let ?after = "afterResolver uppercaseDirective executionArgs directiveArgs payload"
  have "callHooks (?hook # post) payload = (evs', Inr [?after])"
    using uppercase_hook [OF assms(1-3)] assms(5) by simp
  with assms(4) have c: "callHooks (pre @ ?hook # post) payload = (evs @ evs', Inr [?after])"
    by (simp add: callHooks_append)
  have "resolveField (pre @ ?hook # post) payload (JStr ''dotan'')
         = (evs @ evs' @ [TransformationCalled directiveArgs (JStr ''dotan''),
                          SetResultCalled (JStr ''DOTAN'')],
            Inr (JStr ''DOTAN''))"
    using c by (simp add: resolveField_def afterResolver_uppercase toUpperCase_dotan)
  moreover have "(\<forall>s. v \<noteq> JStr s) \<longrightarrow>
            resolveField (pre @ ?hook # post) payload v
            = (evs @ evs' @ [TransformationCalled directiveArgs v, SetResultCalled v], Inr v)"
    using c by (cases v) (simp_all add: resolveField_def afterResolver_uppercase)
  ultimately show ?thesis by simp
qed

theorem uppercase_directive_result_witness:
  "resolveField (testHooks (JObj [])) (testPayload ''testUpper'' (JObj [])) (JStr ''dotan'')
     = ([TransformationCalled [] (JStr ''dotan''), SetResultCalled (JStr ''DOTAN'')],
        Inr (JStr ''DOTAN''))
   \<and> resolveField (testHooks (JObj [])) (testPayload ''testUpper'' (JObj [])) (JNum 7)
     = ([TransformationCalled [] (JNum 7), SetResultCalled (JNum 7)], Inr (JNum 7))"
proof -
  let ?ea = "testArgs (JObj [])"
  let ?p = "testPayload ''testUpper'' (JObj [])"
  let ?node = "\<lparr> dir_name = ''uppercase'', arguments = Some [] \<rparr>"
  let ?decode = "getDirectiveValues coerceInputValue"
  let ?auth = "onResolverCalled ?decode requiresAuthDirective ''auth'' ?ea"
  have found: "getDirective (p_info ?p) ''uppercase'' = Inr (Some ?node)"
    by (rule getDirective_uppercase)
  have def: "schema_getDirective (schema ?ea) (dir_name ?node) = Some uppercaseDefinition"
    by (simp add: schema_getDirective_test)
  have dec: "decodeDirectiveArgs ?decode uppercaseDefinition ?node (variableValues ?ea) = Inr []"
    by (simp add: decodeDirectiveArgs_def decode_uppercase testArgs_def)
  have "getDirective (p_info ?p) ''auth'' = Inr None"
    by (simp add: getDirective_def testPayload_def testSchema_def schema_getType_def markedField_def)
  then have pre: "callHooks [?auth] ?p = ([], Inr [])"
    by (simp add: onResolverCalled_not_found)
  have post: "callHooks [] ?p = ([], Inr [])"
    by simp
  note th = uppercase_directive_result
    [where decode = ?decode and pre = "[?auth]" and post = "[]", OF found def dec pre post]
  from th [of JUndefined] th [of "JNum 7"] show ?thesis
    by (simp add: testHooks_def)
qed

end
